theory Spec2Isabelle
  imports Complex_Main "HOL-Library.Word"
begin

section \<open>Identifiers, errors and the standard containers\<close>

text \<open>
  \<open>WayID\<close> is declared in \<open>coordinates.h\<close>; every use in \<open>osm_store.h\<close> and
  \<open>osm_lua_processing.h\<close> (\<open>uint64_t osmID\<close>, "relations have decrementing way IDs")
  treats it as an unsigned 64-bit integer, so \<open>wayid + 256\<close> wraps modulo \<open>2 ^ 64\<close>.
  Container sizes (\<open>size_t\<close> values returned by \<open>size()\<close>) are list lengths.
\<close>

type_synonym WayID = "64 word"
type_synonym NodeID = "64 word"

text \<open>
  What can go wrong in the modelled code: an unchecked \<open>operator[]\<close> outside the
  container (undefined behaviour in C++, an explicit error value here), the
  \<open>std::out_of_range\<close> exception, and dereferencing an empty \<open>unique_ptr\<close>.
\<close>

datatype error = IndexOutOfBounds | OutOfRange | NullPointer

text \<open>
  \<open>std::vector<bool>\<close>: the stored bits and the reserved capacity. \<open>reserve\<close> only
  ever raises the capacity; \<open>resize\<close> truncates or pads with \<open>false\<close>; \<open>clear\<close>
  drops the bits and keeps the capacity; \<open>operator[]\<close> is unchecked, so an index
  outside \<open>[0, size())\<close> is reported as \<open>IndexOutOfBounds\<close>. Allocation failure is
  not modelled.
\<close>

record vector_bool =
  bits :: "bool list"
  capacity :: nat

definition vector_bool_empty :: vector_bool where
  "vector_bool_empty = \<lparr>bits = [], capacity = 0\<rparr>"

definition vb_size :: "vector_bool \<Rightarrow> nat" where
  "vb_size v = length (bits v)"

definition vb_reserve :: "nat \<Rightarrow> vector_bool \<Rightarrow> vector_bool" where
  "vb_reserve n v = (if capacity v < n then v\<lparr>capacity := n\<rparr> else v)"

definition vb_resize :: "nat \<Rightarrow> vector_bool \<Rightarrow> vector_bool" where
  "vb_resize n v =
     v\<lparr>bits := take n (bits v) @ replicate (n - length (bits v)) False,
       capacity := max (capacity v) n\<rparr>"

definition vb_clear :: "vector_bool \<Rightarrow> vector_bool" where
  "vb_clear v = v\<lparr>bits := []\<rparr>"

definition vb_get :: "vector_bool \<Rightarrow> nat \<Rightarrow> error + bool" where
  "vb_get v i = (if i < length (bits v) then Inr (bits v ! i) else Inl IndexOutOfBounds)"

definition vb_set :: "vector_bool \<Rightarrow> nat \<Rightarrow> bool \<Rightarrow> error + vector_bool" where
  "vb_set v i b =
     (if i < length (bits v) then Inr (v\<lparr>bits := (bits v)[i := b]\<rparr>)
      else Inl IndexOutOfBounds)"


section \<open>UsedWays: the ways used by relations\<close>

record UsedWays =
  usedList :: vector_bool
  inited :: bool

definition UsedWays_init :: UsedWays where
  "UsedWays_init = \<lparr>usedList = vector_bool_empty, inited = False\<rparr>"

text \<open>
  \<open>reserve(compact, numNodes)\<close>: returns at once when \<open>inited\<close> is set; otherwise
  sets it and reserves \<open>numNodes/8\<close> bits in compact mode, \<open>pow(2,31)\<close> bits otherwise
  (the parameter \<open>compact\<close> is written \<open>compact_mode\<close>).
\<close>

definition UsedWays_reserve :: "bool \<Rightarrow> 64 word \<Rightarrow> UsedWays \<Rightarrow> UsedWays" where
  "UsedWays_reserve compact_mode numNodes s =
     (if inited s then s
      else let s1 = s\<lparr>inited := True\<rparr>
           in if compact_mode
              then s1\<lparr>usedList := vb_reserve (unat (numNodes div 8)) (usedList s1)\<rparr>
              else s1\<lparr>usedList := vb_reserve (2 ^ 31) (usedList s1)\<rparr>)"

text \<open>
  \<open>insert(wayid)\<close>: \<open>if (wayid > usedList.size()) usedList.resize(wayid+256);\<close>
  followed by the unchecked write \<open>usedList[wayid] = true\<close>.
\<close>

definition UsedWays_insert :: "WayID \<Rightarrow> UsedWays \<Rightarrow> error + UsedWays" where
  "UsedWays_insert wayid s =
     (let ul = (if unat wayid > vb_size (usedList s)
                then vb_resize (unat (wayid + 256)) (usedList s)
                else usedList s)
      in case vb_set ul (unat wayid) True of
           Inl e \<Rightarrow> Inl e
         | Inr ul' \<Rightarrow> Inr (s\<lparr>usedList := ul'\<rparr>))"

text \<open>
  \<open>at(wayid)\<close>: \<open>(wayid > usedList.size()) ? false : usedList[wayid]\<close>, the read
  being unchecked as well.
\<close>

definition UsedWays_at :: "UsedWays \<Rightarrow> WayID \<Rightarrow> error + bool" where
  "UsedWays_at s wayid =
     (if unat wayid > vb_size (usedList s) then Inr False
      else vb_get (usedList s) (unat wayid))"

definition UsedWays_clear :: "UsedWays \<Rightarrow> UsedWays" where
  "UsedWays_clear s = s\<lparr>usedList := vb_clear (usedList s)\<rparr>"

text \<open>\<open>insert(w)\<close> followed by \<open>at(w)\<close> on the resulting object.\<close>

definition UsedWays_insert_then_at :: "WayID \<Rightarrow> UsedWays \<Rightarrow> error + bool" where
  "UsedWays_insert_then_at w s =
     (case UsedWays_insert w s of Inl e \<Rightarrow> Inl e | Inr s' \<Rightarrow> UsedWays_at s' w)"


section \<open>RelationScanStore: scanned relations\<close>

text \<open>
  \<open>std::map<WayID, std::vector<WayID>>\<close> and \<open>std::map<WayID, tag_map_t>\<close> are
  partial maps; the \<open>flat_map<std::string, std::string>\<close> of tags has unique keys
  and is a partial map too.
\<close>

type_synonym tag_map_t = "string \<rightharpoonup> string"

record RelationScanStore =
  relationsForWays :: "WayID \<rightharpoonup> WayID list"
  relationTags :: "WayID \<rightharpoonup> tag_map_t"

definition RelationScanStore_init :: RelationScanStore where
  "RelationScanStore_init = \<lparr>relationsForWays = Map.empty, relationTags = Map.empty\<rparr>"

text \<open>
  \<open>std::map::operator[]\<close>: a key that is absent is first inserted with a
  value-initialised (empty) vector; the result is the vector now stored under the key,
  together with the map as the call leaves it.
\<close>

definition map_subscript :: "('k \<rightharpoonup> 'v list) \<Rightarrow> 'k \<Rightarrow> 'v list \<times> ('k \<rightharpoonup> 'v list)" where
  "map_subscript m k = (case m k of None \<Rightarrow> ([], m(k \<mapsto> [])) | Some v \<Rightarrow> (v, m))"

text \<open>\<open>relationsForWays[wayid].emplace_back(relid)\<close>\<close>

definition relation_contains_way :: "WayID \<Rightarrow> WayID \<Rightarrow> RelationScanStore \<Rightarrow> RelationScanStore" where
  "relation_contains_way relid wayid s =
     (case map_subscript (relationsForWays s) wayid of
        (v, m) \<Rightarrow> s\<lparr>relationsForWays := m(wayid \<mapsto> v @ [relid])\<rparr>)"

text \<open>\<open>relationTags[relid] = tags\<close>\<close>

definition store_relation_tags :: "WayID \<Rightarrow> tag_map_t \<Rightarrow> RelationScanStore \<Rightarrow> RelationScanStore" where
  "store_relation_tags relid tags s = s\<lparr>relationTags := (relationTags s)(relid \<mapsto> tags)\<rparr>"

text \<open>\<open>relationsForWays.find(wayid) != relationsForWays.end()\<close>\<close>

definition way_in_any_relations :: "RelationScanStore \<Rightarrow> WayID \<Rightarrow> bool" where
  "way_in_any_relations s wayid = (relationsForWays s wayid \<noteq> None)"

text \<open>
  \<open>return relationsForWays[wayid];\<close> The member function is not \<open>const\<close> and goes
  through \<open>operator[]\<close>, so it returns the store as well as the vector.
\<close>

definition relations_for_way :: "RelationScanStore \<Rightarrow> WayID \<Rightarrow> WayID list \<times> RelationScanStore" where
  "relations_for_way s wayid =
     (case map_subscript (relationsForWays s) wayid of
        (v, m) \<Rightarrow> (v, s\<lparr>relationsForWays := m\<rparr>))"

definition get_relation_tag :: "RelationScanStore \<Rightarrow> WayID \<Rightarrow> string \<Rightarrow> string" where
  "get_relation_tag s relid key =
     (case relationTags s relid of
        None \<Rightarrow> ''''
      | Some tags \<Rightarrow> (case tags key of None \<Rightarrow> '''' | Some v \<Rightarrow> v))"

definition RelationScanStore_clear :: "RelationScanStore \<Rightarrow> RelationScanStore" where
  "RelationScanStore_clear s = s\<lparr>relationsForWays := Map.empty, relationTags := Map.empty\<rparr>"

text \<open>A run of \<open>relation_contains_way(relid, wayid)\<close> calls, in the order given.\<close>

fun record_memberships :: "RelationScanStore \<Rightarrow> (WayID \<times> WayID) list \<Rightarrow> RelationScanStore" where
  "record_memberships s [] = s"
| "record_memberships s ((relid, wayid) # calls) =
     record_memberships (relation_contains_way relid wayid s) calls"


section \<open>RelationStore\<close>

type_synonym wayid_vector_t = "WayID list"
type_synonym relation_entry_t = "wayid_vector_t \<times> wayid_vector_t"
type_synonym element_t = "WayID \<times> relation_entry_t"
type_synonym map_t = "element_t list"

text \<open>
  \<open>mOutInLists\<close> is a \<open>unique_ptr<map_t>\<close>: empty (\<open>None\<close>) until \<open>reopen()\<close> has
  allocated the deque.
\<close>

record RelationStore =
  mOutInLists :: "map_t option"

definition RelationStore_init :: RelationStore where
  "RelationStore_init = \<lparr>mOutInLists = None\<rparr>"

definition RelationStore_reopen :: "RelationStore \<Rightarrow> RelationStore" where
  "RelationStore_reopen s = s\<lparr>mOutInLists := Some []\<rparr>"

text \<open>A value-initialised \<open>element_t\<close>, with which \<open>deque::resize\<close> pads.\<close>

definition element_default :: element_t where
  "element_default = (0, ([], []))"

definition deque_resize :: "nat \<Rightarrow> map_t \<Rightarrow> map_t" where
  "deque_resize n d = take n d @ replicate (n - length d) element_default"

text \<open>
  \<open>std::copy(first, last, d_first)\<close> over the deque: one unchecked assignment per
  source element, at consecutive positions from \<open>i\<close> on.
\<close>

fun std_copy :: "'a list \<Rightarrow> 'a list \<Rightarrow> nat \<Rightarrow> error + 'a list" where
  "std_copy [] d i = Inr d"
| "std_copy (x # xs) d i =
     (if i < length d then std_copy xs (d[i := x]) (Suc i) else Inl IndexOutOfBounds)"

definition insert_front :: "element_t list \<Rightarrow> RelationStore \<Rightarrow> error + RelationStore" where
  "insert_front new_relations s =
     (case mOutInLists s of
        None \<Rightarrow> Inl NullPointer
      | Some d \<Rightarrow>
          (let i = length d;
               d1 = deque_resize (i + length new_relations) d
           in case std_copy new_relations d1 i of
                Inl e \<Rightarrow> Inl e
              | Inr d2 \<Rightarrow> Inr (s\<lparr>mOutInLists := Some d2\<rparr>)))"

definition RelationStore_clear :: "RelationStore \<Rightarrow> error + RelationStore" where
  "RelationStore_clear s =
     (case mOutInLists s of None \<Rightarrow> Inl NullPointer | Some d \<Rightarrow> Inr (s\<lparr>mOutInLists := Some []\<rparr>))"

definition RelationStore_size :: "RelationStore \<Rightarrow> error + nat" where
  "RelationStore_size s =
     (case mOutInLists s of None \<Rightarrow> Inl NullPointer | Some d \<Rightarrow> Inr (length d))"


section \<open>OSMStore: geometry from stored coordinates\<close>

text \<open>
  \<open>LatpLon\<close> holds two \<open>int32_t\<close> fixed-point coordinates. A \<open>Point\<close> is a pair of
  doubles, taken here as reals: no property below depends on rounding. A linestring
  and a ring are point sequences, a polygon an outer ring with inner rings, a
  multipolygon a sequence of polygons.
\<close>

record LatpLon =
  latp :: "32 word"
  lon :: "32 word"

type_synonym Point = "real \<times> real"
type_synonym Linestring = "Point list"
type_synonym Ring = "Point list"

record Polygon =
  outer :: Ring
  inners :: "Ring list"

type_synonym MultiPolygon = "Polygon list"

definition Polygon_init :: Polygon where
  "Polygon_init = \<lparr>outer = [], inners = []\<rparr>"

text \<open>\<open>boost::geometry::make<Point>(it->lon/10000000.0, it->latp/10000000.0)\<close>\<close>

definition make_Point :: "LatpLon \<Rightarrow> Point" where
  "make_Point ll = (real_of_int (sint (lon ll)) / 10000000, real_of_int (sint (latp ll)) / 10000000)"

record OSMStore =
  use_compact_nodes :: bool
  require_integrity :: bool
  relations :: RelationStore
  used_ways :: UsedWays
  scanned_relations :: RelationScanStore

text \<open>The default member initialisers of \<open>OSMStore\<close>.\<close>

definition OSMStore_init :: OSMStore where
  "OSMStore_init =
     \<lparr>use_compact_nodes = False, require_integrity = True,
      relations = RelationStore_init, used_ways = UsedWays_init,
      scanned_relations = RelationScanStore_init\<rparr>"

definition enforce_integrity :: "bool \<Rightarrow> OSMStore \<Rightarrow> OSMStore" where
  "enforce_integrity ei st = st\<lparr>require_integrity := ei\<rparr>"

definition integrity_enforced :: "OSMStore \<Rightarrow> bool" where
  "integrity_enforced st = require_integrity st"

text \<open>
  \<open>fillPoints(points, begin, end)\<close>. The iterator type is a template parameter;
  reading \<open>it->lon\<close> and \<open>it->latp\<close> either yields the coordinates or throws
  \<open>std::out_of_range\<close>, which is what \<open>deref\<close> returns for each position of the
  range (\<open>None\<close> for the throw). The handler rethrows when \<open>require_integrity\<close> is set
  and otherwise goes on with the next position.
\<close>

fun fillPoints :: "OSMStore \<Rightarrow> ('it \<Rightarrow> LatpLon option) \<Rightarrow> Point list \<Rightarrow> 'it list \<Rightarrow> error + Point list" where
  "fillPoints st deref points [] = Inr points"
| "fillPoints st deref points (it # rest) =
     (case deref it of
        Some ll \<Rightarrow> fillPoints st deref (points @ [make_Point ll]) rest
      | None \<Rightarrow> if require_integrity st then Inl OutOfRange
                else fillPoints st deref points rest)"

text \<open>\<open>llListLinestring(begin, end)\<close>: \<open>fillPoints\<close> into an empty linestring.\<close>

definition llListLinestring :: "OSMStore \<Rightarrow> ('it \<Rightarrow> LatpLon option) \<Rightarrow> 'it list \<Rightarrow> error + Linestring" where
  "llListLinestring st deref its = fillPoints st deref [] its"

text \<open>
  \<open>llListPolygon(begin, end)\<close>: \<open>fillPoints\<close> into the outer ring of an empty
  polygon, then \<open>boost::geometry::correct\<close>, a function of the Boost library that is
  taken as the parameter \<open>correct\<close>.
\<close>

definition llListPolygon :: "(Polygon \<Rightarrow> Polygon) \<Rightarrow> OSMStore \<Rightarrow> ('it \<Rightarrow> LatpLon option) \<Rightarrow> 'it list \<Rightarrow> error + Polygon" where
  "llListPolygon correct st deref its =
     (case fillPoints st deref (outer Polygon_init) its of
        Inl e \<Rightarrow> Inl e
      | Inr pts \<Rightarrow> Inr (correct (Polygon_init\<lparr>outer := pts\<rparr>)))"

text \<open>
  \<open>wayListLinestring(mp)\<close>: when \<open>mp\<close> is not empty, every point of
  \<open>mp[0].outer()\<close> is appended to the linestring in turn.
\<close>

definition wayListLinestring :: "MultiPolygon \<Rightarrow> Linestring" where
  "wayListLinestring mp =
     (let out = []
      in if mp \<noteq> [] then foldl (\<lambda>out pt. out @ [pt]) out (outer (mp ! 0)) else out)"


section \<open>UsedWays.reserve\<close>

text \<open>
  C5: \<open>reserve\<close> is idempotent. After a first call, a second call with any arguments
  leaves the capacity of the bit vector and the \<open>inited\<close> flag (indeed the whole
  object) as the first call left them.
\<close>

theorem UsedWays_reserve_idempotent:
  "capacity (usedList (UsedWays_reserve c2 n2 (UsedWays_reserve c1 n1 s)))
     = capacity (usedList (UsedWays_reserve c1 n1 s))
   \<and> inited (UsedWays_reserve c2 n2 (UsedWays_reserve c1 n1 s))
     = inited (UsedWays_reserve c1 n1 s)
   \<and> UsedWays_reserve c2 n2 (UsedWays_reserve c1 n1 s) = UsedWays_reserve c1 n1 s"
proof -
  have "inited (UsedWays_reserve c1 n1 s)"
    by (simp add: UsedWays_reserve_def Let_def)
  then have "UsedWays_reserve c2 n2 (UsedWays_reserve c1 n1 s) = UsedWays_reserve c1 n1 s"
    by (simp add: UsedWays_reserve_def [of c2 n2])
  then show ?thesis by simp
qed


section \<open>UsedWays.insert and UsedWays.at\<close>

text \<open>
  Both member functions guard with \<open>wayid > usedList.size()\<close>. An id strictly below
  the size is inside the vector, an id strictly above it is handled by the guard; the
  id equal to the size passes the guard and reaches the unchecked \<open>operator[]\<close>.
\<close>

lemma unat_plus_256:
  "unat (w :: 64 word) < 2 ^ 64 - 256 \<Longrightarrow> unat (w + 256) = unat w + 256"
  by (simp add: unat_word_ariths)

lemma UsedWays_insert_then_at_off_size:
  assumes ne: "unat w \<noteq> vb_size (usedList s)" and small: "unat w < 2 ^ 64 - 256"
  shows "UsedWays_insert_then_at w s = Inr True"
proof (cases "unat w > vb_size (usedList s)")
  case True
  have u: "unat (w + 256) = unat w + 256" using small by (rule unat_plus_256)
  show ?thesis using True
    by (simp add: UsedWays_insert_then_at_def UsedWays_insert_def UsedWays_at_def
        vb_size_def vb_set_def vb_get_def vb_resize_def Let_def u)
next
  case False
  with ne have "unat w < vb_size (usedList s)" by simp
  then show ?thesis
    by (simp add: UsedWays_insert_then_at_def UsedWays_insert_def UsedWays_at_def
        vb_size_def vb_set_def vb_get_def Let_def)
qed

lemma UsedWays_insert_on_size:
  "unat w = vb_size (usedList s) \<Longrightarrow> UsedWays_insert w s = Inl IndexOutOfBounds"
  by (simp add: UsedWays_insert_def vb_size_def vb_set_def)

lemma UsedWays_at_above_size:
  "unat w > vb_size (usedList s) \<Longrightarrow> UsedWays_at s w = Inr False"
  by (simp add: UsedWays_at_def)

lemma UsedWays_at_below_size:
  "unat w < vb_size (usedList s) \<Longrightarrow> UsedWays_at s w = Inr (bits (usedList s) ! unat w)"
  by (simp add: UsedWays_at_def vb_size_def vb_get_def)

lemma UsedWays_at_on_size:
  "unat w = vb_size (usedList s) \<Longrightarrow> UsedWays_at s w = Inl IndexOutOfBounds"
  by (simp add: UsedWays_at_def vb_size_def vb_get_def)

text \<open>
  C1: \<open>insert(w)\<close> followed by \<open>at(w)\<close> returns true whatever the size of the bit
  vector before the insert, also when \<open>w\<close> equals that size. The code does not do
  this: on a fresh object \<open>insert(0)\<close> skips the resize and writes \<open>usedList[0]\<close>
  of an empty vector, and after \<open>insert(1)\<close> has grown the vector to 257 bits,
  \<open>insert(257)\<close> writes one past its end; neither call reaches a state in which
  \<open>at\<close> returns true.
\<close>

theorem UsedWays_insert_at_size_out_of_bounds:
  "UsedWays_insert 0 UsedWays_init = Inl IndexOutOfBounds
   \<and> UsedWays_insert_then_at 0 UsedWays_init = Inl IndexOutOfBounds
   \<and> (case UsedWays_insert 1 UsedWays_init of
         Inl e \<Rightarrow> False
       | Inr s \<Rightarrow> vb_size (usedList s) = 257
                 \<and> UsedWays_insert 257 s = Inl IndexOutOfBounds
                 \<and> UsedWays_insert_then_at 257 s = Inl IndexOutOfBounds)"
  by (simp add: UsedWays_insert_then_at_def UsedWays_insert_def UsedWays_init_def
      vector_bool_empty_def vb_size_def vb_set_def vb_resize_def)

text \<open>
  C3: \<open>at(id)\<close> returns false for an id beyond the current size without growing the
  bit vector, and every access of \<open>at\<close> and \<open>insert\<close> is within bounds. The code
  does not do this: \<open>at(0)\<close> on a fresh object reads \<open>usedList[0]\<close> of an empty
  vector, and with 257 bits stored \<open>at(257)\<close> reads one past the end.
\<close>

theorem UsedWays_at_size_out_of_bounds:
  "UsedWays_at UsedWays_init 0 = Inl IndexOutOfBounds
   \<and> (case UsedWays_insert 1 UsedWays_init of
         Inl e \<Rightarrow> False
       | Inr s \<Rightarrow> vb_size (usedList s) = 257 \<and> UsedWays_at s 257 = Inl IndexOutOfBounds)"
  by (simp add: UsedWays_at_def UsedWays_insert_def UsedWays_init_def
      vector_bool_empty_def vb_size_def vb_set_def vb_get_def vb_resize_def)


section \<open>RelationScanStore\<close>

lemma relations_for_way_lookup:
  "fst (relations_for_way s w) = (case relationsForWays s w of None \<Rightarrow> [] | Some v \<Rightarrow> v)"
  by (simp add: relations_for_way_def map_subscript_def split: option.splits)

lemma relations_for_way_after_contains:
  "fst (relations_for_way (relation_contains_way relid wayid s) w)
     = fst (relations_for_way s w) @ (if wayid = w then [relid] else [])"
  by (simp add: relations_for_way_lookup relation_contains_way_def map_subscript_def
      split: option.splits)

lemma relations_for_way_record_memberships:
  "fst (relations_for_way (record_memberships s calls) w)
     = fst (relations_for_way s w) @ map fst (filter (\<lambda>c. snd c = w) calls)"
proof (induction calls arbitrary: s)
  case Nil
  then show ?case by simp
next
  case (Cons c calls)
  obtain relid wayid where c: "c = (relid, wayid)" by (cases c)
  show ?case
    by (simp add: c Cons.IH relations_for_way_after_contains)
qed

lemma relations_for_way_init: "fst (relations_for_way RelationScanStore_init w) = []"
  by (simp add: relations_for_way_lookup RelationScanStore_init_def)

lemma relations_for_way_known_key:
  "way_in_any_relations s w \<Longrightarrow> snd (relations_for_way s w) = s"
  by (auto simp: way_in_any_relations_def relations_for_way_def map_subscript_def)

text \<open>
  C2: \<open>relations_for_way(wayid)\<close> returns the empty sequence for a way without
  recorded membership and, being a query, leaves \<open>way_in_any_relations(wayid)\<close> as it
  was. The first half holds; the second does not: on an empty store the way is in no
  relation before the call, the call returns the empty sequence, and afterwards
  \<open>way_in_any_relations\<close> answers true, because \<open>operator[]\<close> has inserted the key.
\<close>

theorem relations_for_way_inserts_key:
  "\<not> way_in_any_relations RelationScanStore_init 5
   \<and> fst (relations_for_way RelationScanStore_init 5) = []
   \<and> way_in_any_relations (snd (relations_for_way RelationScanStore_init 5)) 5"
  by (simp add: way_in_any_relations_def relations_for_way_def map_subscript_def
      RelationScanStore_init_def)

text \<open>
  C7: after any sequence of \<open>relation_contains_way(relid, wayid)\<close> calls,
  \<open>relations_for_way(wayid)\<close> returns exactly the relation ids recorded for that way,
  in the order of the calls and with duplicates kept: what the store held for the way
  before, followed by the \<open>relid\<close> of every call for that way; from an empty store just
  the latter; and \<open>n\<close> recordings of one pair give the relation id \<open>n\<close> times.
\<close>

theorem relations_for_way_recorded_in_order:
  "fst (relations_for_way (record_memberships s calls) wayid)
     = fst (relations_for_way s wayid) @ map fst (filter (\<lambda>c. snd c = wayid) calls)
   \<and> fst (relations_for_way (record_memberships RelationScanStore_init calls) wayid)
     = map fst (filter (\<lambda>c. snd c = wayid) calls)
   \<and> fst (relations_for_way
            (record_memberships RelationScanStore_init (replicate n (relid, wayid))) wayid)
     = replicate n relid"
  by (simp add: relations_for_way_record_memberships relations_for_way_init)

text \<open>
  C8: \<open>get_relation_tag(relid, key)\<close> returns the empty string when no tags are stored
  for \<open>relid\<close>, and when tags are stored for it but \<open>key\<close> is not among them. Both
  lookups go through \<open>find\<close>, so the function has no failing branch: it is a total
  function into strings.
\<close>

theorem get_relation_tag_absent:
  "relationTags s relid = None
     \<or> (\<exists>tags. relationTags s relid = Some tags \<and> tags key = None)
   \<Longrightarrow> get_relation_tag s relid key = ''''"
  by (auto simp: get_relation_tag_def)

theorem get_relation_tag_absent_witness:
  "get_relation_tag RelationScanStore_init 7 ''name'' = ''''
   \<and> get_relation_tag
        (store_relation_tags 7 [''type'' \<mapsto> ''route''] RelationScanStore_init) 7 ''name'' = ''''
   \<and> get_relation_tag
        (store_relation_tags 7 [''type'' \<mapsto> ''route''] RelationScanStore_init) 7 ''type''
       = ''route''"
proof -
  have a: "get_relation_tag RelationScanStore_init 7 ''name'' = ''''"
    using get_relation_tag_absent [of RelationScanStore_init 7 "''name''"]
    by (simp add: RelationScanStore_init_def)
  have b: "get_relation_tag
        (store_relation_tags 7 [''type'' \<mapsto> ''route''] RelationScanStore_init) 7 ''name'' = ''''"
    using get_relation_tag_absent
      [of "store_relation_tags 7 [''type'' \<mapsto> ''route''] RelationScanStore_init" 7 "''name''"]
    by (simp add: RelationScanStore_init_def store_relation_tags_def)
  have c: "get_relation_tag
        (store_relation_tags 7 [''type'' \<mapsto> ''route''] RelationScanStore_init) 7 ''type''
       = ''route''"
    by (simp add: get_relation_tag_def RelationScanStore_init_def store_relation_tags_def)
  from a b c show ?thesis by simp
qed


section \<open>RelationStore.insert_front\<close>

text \<open>
  The copy loop started at the end of a prefix overwrites exactly as many of the
  following elements as the source has, and never leaves the destination.
\<close>

lemma std_copy_overwrites:
  "length xs \<le> length ys \<Longrightarrow>
   std_copy xs (pre @ ys) (length pre) = Inr (pre @ xs @ drop (length xs) ys)"
proof (induction xs arbitrary: pre ys)
  case Nil
  then show ?case by simp
next
  case (Cons x xs)
  then obtain y ys' where ys: "ys = y # ys'" by (cases ys) auto
  with Cons.prems have len: "length xs \<le> length ys'" by simp
  have "std_copy (x # xs) (pre @ ys) (length pre)
          = std_copy xs ((pre @ [x]) @ ys') (length (pre @ [x]))"
    by (simp add: ys)
  also have "\<dots> = Inr ((pre @ [x]) @ xs @ drop (length xs) ys')"
    by (rule Cons.IH [OF len])
  finally show ?case by (simp add: ys)
qed

lemma deque_resize_grow:
  "deque_resize (length d + n) d = d @ replicate n element_default"
  by (simp add: deque_resize_def)

lemma insert_front_result:
  assumes "mOutInLists s = Some old"
  shows "insert_front new_relations s = Inr (s\<lparr>mOutInLists := Some (old @ new_relations)\<rparr>)"
proof -
  let ?pad = "replicate (length new_relations) element_default"
  have "std_copy new_relations (old @ ?pad) (length old)
          = Inr (old @ new_relations @ drop (length new_relations) ?pad)"
    by (rule std_copy_overwrites) simp
  then have "std_copy new_relations (old @ ?pad) (length old) = Inr (old @ new_relations)"
    by simp
  with assms show ?thesis
    by (simp add: insert_front_def Let_def deque_resize_grow)
qed

text \<open>
  C6: \<open>insert_front\<close> appends. On a store holding the entries \<open>old\<close>, the call
  succeeds and leaves the deque \<open>old @ new_relations\<close>: the entries that were there
  keep their positions, the new ones follow in the order given, and \<open>size()\<close> grows
  from \<open>length old\<close> by \<open>length new_relations\<close>.
\<close>

theorem insert_front_appends:
  "mOutInLists s = Some old \<Longrightarrow>
   RelationStore_size s = Inr (length old)
   \<and> (\<exists>s'. insert_front new_relations s = Inr s'
          \<and> mOutInLists s' = Some (old @ new_relations)
          \<and> take (length old) (old @ new_relations) = old
          \<and> drop (length old) (old @ new_relations) = new_relations
          \<and> RelationStore_size s' = Inr (length old + length new_relations))"
  by (simp add: insert_front_result RelationStore_size_def)

theorem insert_front_appends_witness:
  "mOutInLists \<lparr>mOutInLists = Some [(1, ([2], [3]))]\<rparr> = Some [(1, ([2], [3]))]
   \<and> (\<exists>s'. insert_front [(7, ([8], [])), (4, ([], [5]))]
               \<lparr>mOutInLists = Some [(1, ([2], [3]))]\<rparr> = Inr s'
          \<and> mOutInLists s' = Some [(1, ([2], [3])), (7, ([8], [])), (4, ([], [5]))]
          \<and> RelationStore_size s' = Inr 3)"
  using insert_front_appends
    [of "\<lparr>mOutInLists = Some [(1, ([2], [3]))]\<rparr>" "[(1, ([2], [3]))]"
        "[(7, ([8], [])), (4, ([], [5]))]"]
  by (simp add: eval_nat_numeral)


section \<open>OSMStore: point lists and relation linestrings\<close>

lemma fillPoints_enforced:
  "require_integrity st \<Longrightarrow> \<exists>it\<in>set its. deref it = None \<Longrightarrow>
   fillPoints st deref points its = Inl OutOfRange"
proof (induction its arbitrary: points)
  case Nil
  then show ?case by simp
next
  case (Cons it its)
  show ?case
  proof (cases "deref it")
    case None
    with Cons.prems show ?thesis by simp
  next
    case (Some ll)
    with Cons.prems have "\<exists>it\<in>set its. deref it = None" by auto
    with Cons.IH Cons.prems(1) Some show ?thesis by simp
  qed
qed

lemma fillPoints_lenient:
  "\<not> require_integrity st \<Longrightarrow>
   fillPoints st deref points its
     = Inr (points @ map (\<lambda>it. make_Point (the (deref it)))
                         (filter (\<lambda>it. deref it \<noteq> None) its))"
  by (induction its arbitrary: points) (auto split: option.splits)

lemma fillPoints_all_resolve:
  "\<forall>it\<in>set its. deref it \<noteq> None \<Longrightarrow>
   fillPoints st deref points its = Inr (points @ map (\<lambda>it. make_Point (the (deref it))) its)"
  by (induction its arbitrary: points) (auto split: option.splits)

text \<open>
  C4: point resolution is governed by \<open>require_integrity\<close>, which is true by default.
  For a range with at least one position that fails to resolve: with the flag set
  (by default, or through \<open>enforce_integrity(true)\<close>) \<open>fillPoints\<close> ends in the
  \<open>out_of_range\<close> error, and so do \<open>llListLinestring\<close> and \<open>llListPolygon\<close>; with
  the flag cleared \<open>fillPoints\<close> succeeds and appends exactly the points of the
  positions that resolve, in their order.
\<close>

theorem fillPoints_integrity_policy:
  "\<exists>it\<in>set its. deref it = None \<Longrightarrow>
   integrity_enforced OSMStore_init
   \<and> fillPoints OSMStore_init deref points its = Inl OutOfRange
   \<and> fillPoints (enforce_integrity True st) deref points its = Inl OutOfRange
   \<and> llListLinestring (enforce_integrity True st) deref its = Inl OutOfRange
   \<and> llListPolygon correct (enforce_integrity True st) deref its = Inl OutOfRange
   \<and> fillPoints (enforce_integrity False st) deref points its
       = Inr (points @ map (\<lambda>it. make_Point (the (deref it)))
                           (filter (\<lambda>it. deref it \<noteq> None) its))
   \<and> llListLinestring (enforce_integrity False st) deref its
       = Inr (map (\<lambda>it. make_Point (the (deref it))) (filter (\<lambda>it. deref it \<noteq> None) its))"
proof -
  assume a: "\<exists>it\<in>set its. deref it = None"
  let ?resolved =
    "map (\<lambda>it. make_Point (the (deref it))) (filter (\<lambda>it. deref it \<noteq> None) its)"
  have d: "require_integrity OSMStore_init"
    by (simp add: OSMStore_init_def)
  have t: "require_integrity (enforce_integrity True st)"
    by (simp add: enforce_integrity_def)
  have f: "\<not> require_integrity (enforce_integrity False st)"
    by (simp add: enforce_integrity_def)
  have 1: "integrity_enforced OSMStore_init"
    using d by (simp add: integrity_enforced_def)
  have 2: "fillPoints OSMStore_init deref points its = Inl OutOfRange"
    by (rule fillPoints_enforced [OF d a])
  have 3: "fillPoints (enforce_integrity True st) deref pts its = Inl OutOfRange" for pts
    by (rule fillPoints_enforced [OF t a])
  have 4: "fillPoints (enforce_integrity False st) deref pts its = Inr (pts @ ?resolved)" for pts
    by (rule fillPoints_lenient [OF f])
  have 5: "llListLinestring (enforce_integrity True st) deref its = Inl OutOfRange"
    unfolding llListLinestring_def by (rule 3)
  have 6: "llListPolygon correct (enforce_integrity True st) deref its = Inl OutOfRange"
    unfolding llListPolygon_def by (simp add: 3)
  have 7: "llListLinestring (enforce_integrity False st) deref its = Inr ?resolved"
    unfolding llListLinestring_def by (simp add: 4)
  from 1 2 3 4 5 6 7 show ?thesis by blast
qed

theorem fillPoints_integrity_policy_witness:
  "(\<exists>it\<in>set [1, 2, 3::nat].
       [1 \<mapsto> \<lparr>latp = 20000000, lon = 10000000\<rparr>,
        3 \<mapsto> \<lparr>latp = 40000000, lon = 30000000\<rparr>] it = None)
   \<and> integrity_enforced OSMStore_init
   \<and> llListLinestring OSMStore_init
        [1 \<mapsto> \<lparr>latp = 20000000, lon = 10000000\<rparr>,
         3 \<mapsto> \<lparr>latp = 40000000, lon = 30000000\<rparr>] [1, 2, 3::nat] = Inl OutOfRange
   \<and> llListLinestring (enforce_integrity False OSMStore_init)
        [1 \<mapsto> \<lparr>latp = 20000000, lon = 10000000\<rparr>,
         3 \<mapsto> \<lparr>latp = 40000000, lon = 30000000\<rparr>] [1, 2, 3::nat]
       = Inr [(1, 2), (3, 4)]"
proof -
  let ?deref = "[1 \<mapsto> \<lparr>latp = 20000000, lon = 10000000\<rparr>,
                 3 \<mapsto> \<lparr>latp = 40000000, lon = 30000000\<rparr>] :: nat \<Rightarrow> LatpLon option"
  have h: "\<exists>it\<in>set [1, 2, 3::nat]. ?deref it = None"
    by simp
  show ?thesis
    using h fillPoints_integrity_policy
      [OF h, where points = "[]" and st = OSMStore_init and correct = id]
    by (simp add: llListLinestring_def make_Point_def OSMStore_init_def
        enforce_integrity_def integrity_enforced_def)
qed

lemma foldl_push_back: "foldl (\<lambda>out pt. out @ [pt]) acc xs = acc @ xs"
  by (induction xs arbitrary: acc) simp_all

text \<open>
  C10: \<open>wayListLinestring(mp)\<close> is the empty linestring for an empty multipolygon,
  and otherwise exactly the points of the outer ring of the first polygon, in order;
  the inner rings of that polygon and all later polygons play no part.
\<close>

theorem wayListLinestring_first_outer:
  "wayListLinestring [] = []
   \<and> wayListLinestring (p # ps) = outer p
   \<and> wayListLinestring (\<lparr>outer = r, inners = rs\<rparr> # ps) = r"
  by (simp add: wayListLinestring_def foldl_push_back)

end
